theory Spec2Isabelle
  imports Complex_Main "HOL-Library.Sublist"
begin

section \<open>Data model of the media element\<close>

text \<open>
  The development embeds \<^verbatim>\<open>shaka/src/js/mse/video_element.cc\<close>: the class
  \<^verbatim>\<open>HTMLVideoElement\<close> with its two state machines (ready state and pipeline status),
  the events they schedule and the commands the element sends to its collaborators.
\<close>

datatype MediaReadyState =
  HAVE_NOTHING | HAVE_METADATA | HAVE_CURRENT_DATA | HAVE_FUTURE_DATA | HAVE_ENOUGH_DATA

text \<open>
  Modelled from the spec: the declaration of \<^verbatim>\<open>media::MediaReadyState\<close> is not among the
  sources at hand, so the numeric values the comparisons \<^verbatim>\<open><\<close> and \<^verbatim>\<open>>=\<close> of
  \<^verbatim>\<open>OnReadyStateChanged\<close> work on are taken from the specification's data model
  (\<open>NoData < Metadata < CurrentData < FutureData < EnoughData\<close>), which is also the order
  in which the element's factory registers the five constants.
\<close>

fun ready_state_value :: "MediaReadyState \<Rightarrow> nat" where
  "ready_state_value HAVE_NOTHING = 0"
| "ready_state_value HAVE_METADATA = 1"
| "ready_state_value HAVE_CURRENT_DATA = 2"
| "ready_state_value HAVE_FUTURE_DATA = 3"
| "ready_state_value HAVE_ENOUGH_DATA = 4"

text \<open>The eight cases of the \<^verbatim>\<open>switch\<close> in \<^verbatim>\<open>OnPipelineStatusChanged\<close>.\<close>

datatype PipelineStatus =
  Initializing | Playing | Paused | Stalled | SeekingPlay | SeekingPause | Ended | Errored

text \<open>
  The event types the element names. The source writes them qualified
  (\<^verbatim>\<open>EventType::Playing\<close>); the prefix \<open>Ev\<close> stands for the qualifier, since
  \<open>Playing\<close> and \<open>Ended\<close> are pipeline statuses as well.
\<close>

datatype EventType =
  EvLoadedMetaData | EvLoadedData | EvCanPlay | EvWaiting | EvReadyStateChange
| EvEmptied | EvPlay | EvPlaying | EvPause | EvSeeking | EvSeeked | EvEnded | EvError
| EvEncrypted | EvWaitingForKey

text \<open>\<^verbatim>\<open>enum ExceptionCode\<close> of \<^verbatim>\<open>shaka/src/js/dom/exception_code.h\<close>.\<close>

datatype ExceptionCode =
  IndexSizeError | HierarchyRequestError | WrongDocumentError | InvalidCharacterError
| NoModificationAllowedError | NotFoundError | NotSupportedError | InUseAttributeError
| InvalidStateError | SyntaxError | InvalidModificationError | NamespaceError
| InvalidAccessError | TypeMismatchError | SecurityError | NetworkError | AbortError
| URLMismatchError | QuotaExceededError | TimeoutError | InvalidNodeTypeError
| DataCloneError | EncodingError | NotReadableError | UnknownError | ConstraintError
| DataError | TransactionInactiveError | ReadOnlyError | VersionError | OperationError
| NotAllowedError | MaxExceptionCode

datatype JsError = DOMException ExceptionCode string

datatype 'a ExceptionOr = Exception JsError | Returned 'a

datatype Promise = Resolved | Rejected JsError

text \<open>
  The element only ever builds a media error with the code \<^verbatim>\<open>MEDIA_ERR_DECODE\<close>; the other
  three codes of the media element interface are listed so that a decode error is one
  code among several.
\<close>

datatype MediaErrorCode =
  MEDIA_ERR_ABORTED | MEDIA_ERR_NETWORK | MEDIA_ERR_DECODE | MEDIA_ERR_SRC_NOT_SUPPORTED

datatype MediaError = MediaError (code: MediaErrorCode) (message: string)

text \<open>
  Collaborator objects. A media source is known to the element by its \<^verbatim>\<open>url\<close>. The
  enumerations \<^verbatim>\<open>media::Status\<close>, \<^verbatim>\<open>media::SourceType\<close> and \<^verbatim>\<open>TextTrackKind\<close>
  and the class \<^verbatim>\<open>eme::Implementation\<close> are declared outside the sources at hand and the
  element never inspects them: their values are carried as opaque numbers.
\<close>

datatype MediaSource = MediaSource (url: string)

type_synonym Status = nat
type_synonym SourceType = nat
type_synonym TextTrackKind = nat
type_synonym Cdm = nat

datatype MediaKeys = MediaKeys (GetCdm: Cdm)

datatype TextTrack = TextTrack (kind: TextTrackKind) (label: string) (language: string)

text \<open>
  What the element asks of a media source, of its controller and of its pipeline
  manager. Each request is logged together with the media source it was sent through.
  What a collaborator does with a request is outside the sources at hand; whatever it
  reports back reaches the element as a separate callback.
\<close>

datatype Request =
  CloseMediaSource
| OpenMediaSource
| Controller_SetCdm "Cdm option"
| Controller_SetVolume real
| PipelineManager_Play
| PipelineManager_Pause
| PipelineManager_SetCurrentTime real
| PipelineManager_SetPlaybackRate real

text \<open>
  The fields of \<^verbatim>\<open>HTMLVideoElement\<close>. The two lists are the element's effects on the
  outside: \<open>events\<close> is the queue of the event scheduler (in scheduling order), \<open>calls\<close>
  the requests sent to collaborators (in sending order). The \<^verbatim>\<open>double\<close> volume is only
  stored and passed on, never computed with, and is a real number here.
\<close>

record HTMLVideoElement =
  ready_state :: MediaReadyState
  autoplay :: bool
  loop :: bool
  media_keys :: "MediaKeys option"
  text_tracks :: "TextTrack list"
  error :: "MediaError option"
  media_source :: "MediaSource option"
  pipeline_status :: PipelineStatus
  volume :: real
  will_play :: bool
  is_muted :: bool
  events :: "EventType list"
  calls :: "(MediaSource \<times> Request) list"

text \<open>
  What the element takes from its surroundings: the registry of media sources
  (\<^verbatim>\<open>MediaSource::FindMediaSource\<close>), the text of a status (\<^verbatim>\<open>GetErrorString\<close>), and
  whether the build compiles the \<^verbatim>\<open>DCHECK\<close> assertions in (a debug build) or out.
\<close>

record Env =
  FindMediaSource :: "string \<Rightarrow> MediaSource option"
  GetErrorString :: "Status \<Rightarrow> string"
  dcheck_is_on :: bool

text \<open>A failed assertion aborts the process: no state is left to continue with.\<close>

datatype Fatal = CheckFailed

definition and_then :: "Fatal + 'a \<Rightarrow> ('a \<Rightarrow> Fatal + 'b) \<Rightarrow> Fatal + 'b" where
  "and_then m f = (case m of Inl e \<Rightarrow> Inl e | Inr x \<Rightarrow> f x)"

definition DCHECK :: "Env \<Rightarrow> bool \<Rightarrow> Fatal + unit" where
  "DCHECK env c = (if dcheck_is_on env \<and> \<not> c then Inl CheckFailed else Inr ())"

definition ScheduleEvent :: "EventType \<Rightarrow> HTMLVideoElement \<Rightarrow> HTMLVideoElement" where
  "ScheduleEvent ev s = s\<lparr>events := events s @ [ev]\<rparr>"

definition send :: "MediaSource \<Rightarrow> Request \<Rightarrow> HTMLVideoElement \<Rightarrow> HTMLVideoElement" where
  "send m r s = s\<lparr>calls := calls s @ [(m, r)]\<rparr>"

section \<open>The element's operations\<close>

text \<open>The constructor's initialiser list; the smart pointers start out null.\<close>

definition HTMLVideoElement_new :: HTMLVideoElement where
  "HTMLVideoElement_new =
     \<lparr>ready_state = HAVE_NOTHING, autoplay = False, loop = False, media_keys = None,
      text_tracks = [], error = None, media_source = None,
      pipeline_status = Initializing, volume = 1, will_play = False, is_muted = False,
      events = [], calls = []\<rparr>"

definition OnReadyStateChanged ::
  "Env \<Rightarrow> MediaReadyState \<Rightarrow> HTMLVideoElement \<Rightarrow> Fatal + HTMLVideoElement" where
  "OnReadyStateChanged env new_ready_state s =
     and_then (DCHECK env (if media_source s \<noteq> None then new_ready_state \<noteq> HAVE_NOTHING
                           else new_ready_state = HAVE_NOTHING))
     (\<lambda>_. if ready_state s = new_ready_state then Inr s
          else
            let s1 = (if ready_state_value (ready_state s) < ready_state_value HAVE_METADATA \<and>
                         ready_state_value new_ready_state \<ge> ready_state_value HAVE_METADATA
                      then ScheduleEvent EvLoadedMetaData s else s);
                s2 = (if ready_state_value (ready_state s1) < ready_state_value HAVE_CURRENT_DATA \<and>
                         ready_state_value new_ready_state \<ge> ready_state_value HAVE_CURRENT_DATA
                      then ScheduleEvent EvLoadedData s1 else s1);
                s3 = (if ready_state_value (ready_state s2) < ready_state_value HAVE_ENOUGH_DATA \<and>
                         ready_state_value new_ready_state \<ge> ready_state_value HAVE_ENOUGH_DATA
                      then ScheduleEvent EvCanPlay s2 else s2);
                s4 = (if ready_state_value (ready_state s3) \<ge> ready_state_value HAVE_FUTURE_DATA \<and>
                         ready_state_value new_ready_state < ready_state_value HAVE_FUTURE_DATA \<and>
                         new_ready_state \<noteq> HAVE_NOTHING
                      then ScheduleEvent EvWaiting s3 else s3);
                s5 = ScheduleEvent EvReadyStateChange s4
            in Inr (s5\<lparr>ready_state := new_ready_state\<rparr>))"

definition OnPipelineStatusChanged ::
  "Env \<Rightarrow> PipelineStatus \<Rightarrow> HTMLVideoElement \<Rightarrow> Fatal + HTMLVideoElement" where
  "OnPipelineStatusChanged env status s =
     (if status = pipeline_status s then
        (if status = SeekingPlay \<or> status = SeekingPause
         then Inr (ScheduleEvent EvSeeking s) else Inr s)
      else
        and_then
          (case status of
             Initializing \<Rightarrow> Inr (ScheduleEvent EvEmptied s)
           | Playing \<Rightarrow>
               and_then
                 (if pipeline_status s = Paused then Inr (ScheduleEvent EvPlay s)
                  else if pipeline_status s = SeekingPlay then Inr (ScheduleEvent EvSeeked s)
                  else and_then
                         (DCHECK env (pipeline_status s = Stalled \<or>
                                      pipeline_status s = Initializing))
                         (\<lambda>_. Inr s))
                 (\<lambda>s1. Inr (ScheduleEvent EvPlaying s1))
           | Paused \<Rightarrow>
               (if pipeline_status s = Playing \<or> pipeline_status s = Stalled
                then Inr (ScheduleEvent EvPause s)
                else if pipeline_status s = SeekingPause then Inr (ScheduleEvent EvSeeked s)
                else and_then (DCHECK env (pipeline_status s = Initializing)) (\<lambda>_. Inr s))
           | Stalled \<Rightarrow> Inr s
           | SeekingPlay \<Rightarrow> Inr (ScheduleEvent EvSeeking s)
           | SeekingPause \<Rightarrow> Inr (ScheduleEvent EvSeeking s)
           | Ended \<Rightarrow>
               (let s1 = (if pipeline_status s = Playing then ScheduleEvent EvPause s
                          else if pipeline_status s = SeekingPlay \<or>
                                  pipeline_status s = SeekingPause
                          then ScheduleEvent EvSeeked s else s)
                in Inr (ScheduleEvent EvEnded s1))
           | Errored \<Rightarrow>
               (let s1 = ScheduleEvent EvError s
                in Inr (if error s1 = None
                        then s1\<lparr>error := Some (MediaError MEDIA_ERR_DECODE ''Unknown media error'')\<rparr>
                        else s1)))
          (\<lambda>s'. Inr (s'\<lparr>pipeline_status := status\<rparr>)))"

definition OnMediaError :: "Env \<Rightarrow> SourceType \<Rightarrow> Status \<Rightarrow> HTMLVideoElement \<Rightarrow> HTMLVideoElement" where
  "OnMediaError env source status s =
     (let s1 = ScheduleEvent EvError s
      in if error s1 = None
         then s1\<lparr>error := Some (MediaError MEDIA_ERR_DECODE (GetErrorString env status))\<rparr>
         else s1)"

definition SetMediaKeys :: "MediaKeys option \<Rightarrow> HTMLVideoElement \<Rightarrow> Promise \<times> HTMLVideoElement" where
  "SetMediaKeys keys s =
     (if keys = None \<and> media_source s = None then (Resolved, s)
      else case media_source s of
             None \<Rightarrow>
               (Rejected (DOMException InvalidStateError
                            ''Cannot set MediaKeys until after setting source''), s)
           | Some m \<Rightarrow>
               (let cdm = map_option GetCdm keys;
                    s1 = send m (Controller_SetCdm cdm) s
                in (Resolved, s1\<lparr>media_keys := keys\<rparr>)))"

definition Load :: "Env \<Rightarrow> HTMLVideoElement \<Rightarrow> Fatal + HTMLVideoElement" where
  "Load env s =
     (let s0 = s\<lparr>error := None\<rparr>
      in case media_source s0 of
           None \<Rightarrow> Inr s0
         | Some m \<Rightarrow>
             and_then (OnReadyStateChanged env HAVE_NOTHING
                         ((send m CloseMediaSource s0)\<lparr>media_source := None\<rparr>))
               (\<lambda>s1. and_then (OnPipelineStatusChanged env Initializing s1)
                 (\<lambda>s2. Inr (s2\<lparr>will_play := False\<rparr>))))"

definition SetSource ::
  "Env \<Rightarrow> string \<Rightarrow> HTMLVideoElement \<Rightarrow> Fatal + (unit ExceptionOr \<times> HTMLVideoElement)" where
  "SetSource env src s =
     and_then (Load env s)
       (\<lambda>s1. and_then (DCHECK env (media_source s1 = None))
         (\<lambda>_. if src = [] then Inr (Returned (), s1)
              else
                let s2 = s1\<lparr>media_source := FindMediaSource env src\<rparr>
                in case media_source s2 of
                     Some m \<Rightarrow>
                       (let s3 = send m OpenMediaSource s2;
                            s4 = send m (Controller_SetVolume
                                           (if is_muted s3 then 0 else volume s3)) s3;
                            s5 = (if autoplay s4 \<or> will_play s4
                                  then send m PipelineManager_Play s4 else s4)
                        in Inr (Returned (), s5))
                   | None \<Rightarrow>
                       Inr (Exception (DOMException NotSupportedError
                                         ''Unknown MediaSource URL given.''), s2)))"

definition SetCurrentTime :: "real \<Rightarrow> HTMLVideoElement \<Rightarrow> HTMLVideoElement" where
  "SetCurrentTime time s =
     (case media_source s of
        Some m \<Rightarrow> send m (PipelineManager_SetCurrentTime time) s
      | None \<Rightarrow> s)"

definition SetPlaybackRate :: "real \<Rightarrow> HTMLVideoElement \<Rightarrow> HTMLVideoElement" where
  "SetPlaybackRate rate s =
     (case media_source s of
        Some m \<Rightarrow> send m (PipelineManager_SetPlaybackRate rate) s
      | None \<Rightarrow> s)"

definition Muted :: "HTMLVideoElement \<Rightarrow> bool" where
  "Muted s = is_muted s"

definition SetMuted :: "bool \<Rightarrow> HTMLVideoElement \<Rightarrow> HTMLVideoElement" where
  "SetMuted muted s =
     (let s1 = s\<lparr>is_muted := muted\<rparr>
      in case media_source s1 of
           Some m \<Rightarrow> send m (Controller_SetVolume (if muted then 0 else volume s1)) s1
         | None \<Rightarrow> s1)"

definition Volume :: "HTMLVideoElement \<Rightarrow> real" where
  "Volume s = volume s"

definition SetVolume :: "real \<Rightarrow> HTMLVideoElement \<Rightarrow> HTMLVideoElement" where
  "SetVolume v s =
     (let s1 = s\<lparr>volume := v\<rparr>
      in case media_source s1 of
           Some m \<Rightarrow> send m (Controller_SetVolume (if is_muted s1 then 0 else volume s1)) s1
         | None \<Rightarrow> s1)"

definition Play :: "HTMLVideoElement \<Rightarrow> HTMLVideoElement" where
  "Play s =
     (case media_source s of
        Some m \<Rightarrow> send m PipelineManager_Play s
      | None \<Rightarrow> s\<lparr>will_play := True\<rparr>)"

definition Pause :: "HTMLVideoElement \<Rightarrow> HTMLVideoElement" where
  "Pause s =
     (case media_source s of
        Some m \<Rightarrow> send m PipelineManager_Pause s
      | None \<Rightarrow> s\<lparr>will_play := False\<rparr>)"

definition AddTextTrack ::
  "TextTrackKind \<Rightarrow> string option \<Rightarrow> string option \<Rightarrow> HTMLVideoElement
     \<Rightarrow> TextTrack \<times> HTMLVideoElement" where
  "AddTextTrack k lbl lang s =
     (let ret = TextTrack k (case lbl of Some l \<Rightarrow> l | None \<Rightarrow> [])
                            (case lang of Some l \<Rightarrow> l | None \<Rightarrow> [])
      in (ret, s\<lparr>text_tracks := text_tracks s @ [ret]\<rparr>))"

section \<open>Sequences of public operations\<close>

text \<open>
  The operations through which the element's state changes: the three callbacks of the
  pipeline, the member functions and read-write properties registered by
  \<^verbatim>\<open>HTMLVideoElementFactory\<close>, and the volume and mute setters of the class. Return
  values are dropped; a failed assertion ends the run.
\<close>

datatype Op =
  Op_OnReadyStateChanged MediaReadyState
| Op_OnPipelineStatusChanged PipelineStatus
| Op_OnMediaError SourceType Status
| Op_SetMediaKeys "MediaKeys option"
| Op_Load
| Op_SetSource string
| Op_SetCurrentTime real
| Op_SetPlaybackRate real
| Op_SetMuted bool
| Op_SetVolume real
| Op_Play
| Op_Pause
| Op_AddTextTrack TextTrackKind "string option" "string option"
| Op_set_autoplay bool
| Op_set_loop bool

fun apply_op :: "Env \<Rightarrow> Op \<Rightarrow> HTMLVideoElement \<Rightarrow> Fatal + HTMLVideoElement" where
  "apply_op env (Op_OnReadyStateChanged r) s = OnReadyStateChanged env r s"
| "apply_op env (Op_OnPipelineStatusChanged p) s = OnPipelineStatusChanged env p s"
| "apply_op env (Op_OnMediaError src st) s = Inr (OnMediaError env src st s)"
| "apply_op env (Op_SetMediaKeys k) s = Inr (snd (SetMediaKeys k s))"
| "apply_op env Op_Load s = Load env s"
| "apply_op env (Op_SetSource u) s = and_then (SetSource env u s) (\<lambda>r. Inr (snd r))"
| "apply_op env (Op_SetCurrentTime t) s = Inr (SetCurrentTime t s)"
| "apply_op env (Op_SetPlaybackRate r) s = Inr (SetPlaybackRate r s)"
| "apply_op env (Op_SetMuted b) s = Inr (SetMuted b s)"
| "apply_op env (Op_SetVolume v) s = Inr (SetVolume v s)"
| "apply_op env Op_Play s = Inr (Play s)"
| "apply_op env Op_Pause s = Inr (Pause s)"
| "apply_op env (Op_AddTextTrack k l g) s = Inr (snd (AddTextTrack k l g s))"
| "apply_op env (Op_set_autoplay b) s = Inr (s\<lparr>autoplay := b\<rparr>)"
| "apply_op env (Op_set_loop b) s = Inr (s\<lparr>loop := b\<rparr>)"

fun run_ops :: "Env \<Rightarrow> Op list \<Rightarrow> HTMLVideoElement \<Rightarrow> Fatal + HTMLVideoElement" where
  "run_ops env [] s = Inr s"
| "run_ops env (x # xs) s = and_then (apply_op env x s) (run_ops env xs)"


section \<open>Concrete inputs\<close>

text \<open>
  A registry holding one media source, in a debug build and in a release build, and an
  element with that source attached, for evaluating the operations at concrete inputs.
\<close>

definition debug_env :: Env where
  "debug_env =
     \<lparr>FindMediaSource = (\<lambda>u. if u = ''blob:a'' then Some (MediaSource ''blob:a'') else None),
      GetErrorString = (\<lambda>_. ''Decoder failure''),
      dcheck_is_on = True\<rparr>"

definition release_env :: Env where
  "release_env = debug_env\<lparr>dcheck_is_on := False\<rparr>"

definition attached_element :: HTMLVideoElement where
  "attached_element =
     HTMLVideoElement_new
       \<lparr>media_source := Some (MediaSource ''blob:a''),
        calls := [(MediaSource ''blob:a'', OpenMediaSource),
                  (MediaSource ''blob:a'', Controller_SetVolume 1)]\<rparr>"

section \<open>Basic facts\<close>

lemma and_then_simps:
  "and_then (Inl e) f = Inl e"
  "and_then (Inr x) f = f x"
  by (simp_all add: and_then_def)

lemma DCHECK_simps:
  "c \<Longrightarrow> DCHECK env c = Inr ()"
  "\<not> dcheck_is_on env \<Longrightarrow> DCHECK env c = Inr ()"
  "dcheck_is_on env \<Longrightarrow> \<not> c \<Longrightarrow> DCHECK env c = Inl CheckFailed"
  by (simp_all add: DCHECK_def)

lemma status_after:
  "OnPipelineStatusChanged env p s = Inr s' \<Longrightarrow> pipeline_status s' = p"
  unfolding OnPipelineStatusChanged_def and_then_def DCHECK_def ScheduleEvent_def Let_def
  by (cases p) (auto split: if_splits sum.splits)

text \<open>What \<^verbatim>\<open>Load\<close> and \<^verbatim>\<open>SetSource\<close> compute, in closed form.\<close>

lemma Load_detached:
  "media_source s = None \<Longrightarrow> Load env s = Inr (s\<lparr>error := None\<rparr>)"
  by (simp add: Load_def)

lemma Load_attached:
  "media_source s = Some m \<Longrightarrow>
   Load env s =
     Inr (s\<lparr>error := None, media_source := None, ready_state := HAVE_NOTHING,
            pipeline_status := Initializing, will_play := False,
            calls := calls s @ [(m, CloseMediaSource)],
            events := events s @
              (if ready_state s = HAVE_NOTHING then [] else [EvReadyStateChange]) @
              (if pipeline_status s = Initializing then [] else [EvEmptied])\<rparr>)"
  by (cases "ready_state s")
     (simp_all add: Load_def send_def OnReadyStateChanged_def OnPipelineStatusChanged_def
        DCHECK_def and_then_simps ScheduleEvent_def Let_def)

lemma Load_total:
  "\<exists>s1. Load env s = Inr s1 \<and> error s1 = None \<and> media_source s1 = None \<and>
        volume s1 = volume s \<and> is_muted s1 = is_muted s \<and> autoplay s1 = autoplay s \<and>
        will_play s1 = (media_source s = None \<and> will_play s) \<and>
        ready_state s1 = (if media_source s = None then ready_state s else HAVE_NOTHING)"
  by (cases "media_source s") (simp_all add: Load_detached Load_attached)

lemma SetSource_after_Load:
  "Load env s = Inr s1 \<Longrightarrow>
   SetSource env u s =
     (if u = [] then Inr (Returned (), s1)
      else case FindMediaSource env u of
             Some m \<Rightarrow>
               Inr (Returned (),
                    s1\<lparr>media_source := Some m,
                       calls := calls s1 @
                         [(m, OpenMediaSource),
                          (m, Controller_SetVolume (if is_muted s1 then 0 else volume s1))] @
                         (if autoplay s1 \<or> will_play s1 then [(m, PipelineManager_Play)] else [])\<rparr>)
           | None \<Rightarrow>
               Inr (Exception (DOMException NotSupportedError ''Unknown MediaSource URL given.''),
                    s1))"
proof -
  assume L: "Load env s = Inr s1"
  from Load_total [of env s] L have "media_source s1 = None" by auto
  then have [simp]: "s1\<lparr>media_source := None\<rparr> = s1" by simp
  from L \<open>media_source s1 = None\<close> show ?thesis
    by (simp add: SetSource_def and_then_simps DCHECK_def send_def Let_def split: option.splits)
qed

text \<open>What each callback leaves untouched, and when the ready-state assertion fails.\<close>

lemma OnReadyStateChanged_result:
  "case OnReadyStateChanged env r s of
     Inl _ \<Rightarrow> True
   | Inr s' \<Rightarrow>
       ready_state s' = r \<and> media_source s' = media_source s \<and> error s' = error s \<and>
       volume s' = volume s \<and> is_muted s' = is_muted s \<and> will_play s' = will_play s \<and>
       autoplay s' = autoplay s \<and> pipeline_status s' = pipeline_status s \<and>
       calls s' = calls s"
  by (simp add: OnReadyStateChanged_def and_then_def DCHECK_def ScheduleEvent_def Let_def)

lemma OnReadyStateChanged_frame:
  "OnReadyStateChanged env r s = Inr s' \<Longrightarrow>
   ready_state s' = r \<and> media_source s' = media_source s \<and> error s' = error s \<and>
   volume s' = volume s \<and> is_muted s' = is_muted s \<and> will_play s' = will_play s \<and>
   autoplay s' = autoplay s \<and> pipeline_status s' = pipeline_status s \<and> calls s' = calls s"
  using OnReadyStateChanged_result [where env = env and r = r and s = s] by simp


lemma OnPipelineStatusChanged_frame:
  "OnPipelineStatusChanged env p s = Inr s' \<Longrightarrow>
   ready_state s' = ready_state s \<and> media_source s' = media_source s \<and>
   (error s \<noteq> None \<longrightarrow> error s' = error s) \<and>
   volume s' = volume s \<and> is_muted s' = is_muted s \<and> will_play s' = will_play s \<and>
   autoplay s' = autoplay s \<and> calls s' = calls s"
  unfolding OnPipelineStatusChanged_def and_then_def DCHECK_def ScheduleEvent_def Let_def
  by (cases p) (auto split: if_splits sum.splits)

lemma OnMediaError_frame:
  "ready_state (OnMediaError env src st s) = ready_state s \<and>
   media_source (OnMediaError env src st s) = media_source s \<and>
   (error s \<noteq> None \<longrightarrow> error (OnMediaError env src st s) = error s) \<and>
   volume (OnMediaError env src st s) = volume s"
  by (simp add: OnMediaError_def ScheduleEvent_def Let_def)

lemma SetSource_frame:
  "SetSource env u s = Inr (r, s') \<Longrightarrow>
   volume s' = volume s \<and> (media_source s' = None \<longrightarrow> Load env s = Inr s')"
proof -
  assume a: "SetSource env u s = Inr (r, s')"
  from Load_total [of env s] obtain s1 where
    L: "Load env s = Inr s1" and v: "volume s1 = volume s" by blast
  from a v show ?thesis
    unfolding SetSource_after_Load [OF L] L
    by (auto split: if_splits option.splits)
qed

text \<open>Single operations and runs: the volume, the error record, the sourceless invariant.\<close>

lemma apply_op_volume:
  "apply_op env x s = Inr s' \<Longrightarrow>
   volume s' = (case x of Op_SetVolume v \<Rightarrow> v | _ \<Rightarrow> volume s)"
proof (cases x)
  case (Op_OnReadyStateChanged r)
  then show "apply_op env x s = Inr s' \<Longrightarrow> ?thesis"
    by (simp add: OnReadyStateChanged_frame)
next
  case (Op_OnPipelineStatusChanged p)
  then show "apply_op env x s = Inr s' \<Longrightarrow> ?thesis"
    by (simp add: OnPipelineStatusChanged_frame)
next
  case Op_Load
  then show "apply_op env x s = Inr s' \<Longrightarrow> ?thesis"
    using Load_total [of env s] by auto
next
  case (Op_SetSource u)
  then show "apply_op env x s = Inr s' \<Longrightarrow> ?thesis"
    by (auto simp add: and_then_def split: sum.splits dest: SetSource_frame)
qed (auto simp add: OnMediaError_frame SetMediaKeys_def SetCurrentTime_def SetPlaybackRate_def
       SetMuted_def SetVolume_def Play_def Pause_def AddTextTrack_def send_def Let_def
       split: option.splits)




lemma run_ops_volume:
  "run_ops env xs s = Inr s' \<Longrightarrow> 0 \<le> volume s \<and> volume s \<le> 1 \<Longrightarrow>
   \<forall>v. Op_SetVolume v \<in> set xs \<longrightarrow> 0 \<le> v \<and> v \<le> 1 \<Longrightarrow>
   0 \<le> volume s' \<and> volume s' \<le> 1"
proof (induction xs arbitrary: s)
  case Nil
  then show ?case by simp
next
  case (Cons x xs)
  from Cons.prems(1) obtain s1 where
    step: "apply_op env x s = Inr s1" and rest: "run_ops env xs s1 = Inr s'"
    by (auto simp add: and_then_def split: sum.splits)
  have "0 \<le> volume s1 \<and> volume s1 \<le> 1"
    using apply_op_volume [OF step] Cons.prems(2,3) by (cases x) auto
  from Cons.IH [OF rest this] Cons.prems(3) show ?case by simp
qed














section \<open>The transition to Playing\<close>

text \<open>
  C1. For the pipeline-status transition to Playing: from Paused the call schedules
  exactly Play then Playing; from SeekingPlay exactly Seeked then Playing; from Stalled
  or Initializing exactly Playing; in each case the status is Playing afterwards, no
  assertion fails whatever the build, and nothing else of the element changes.
\<close>

theorem playing_transition_events:
  "(pipeline_status s = Paused \<longrightarrow>
      OnPipelineStatusChanged env Playing s =
        Inr (s\<lparr>events := events s @ [EvPlay, EvPlaying], pipeline_status := Playing\<rparr>)) \<and>
   (pipeline_status s = SeekingPlay \<longrightarrow>
      OnPipelineStatusChanged env Playing s =
        Inr (s\<lparr>events := events s @ [EvSeeked, EvPlaying], pipeline_status := Playing\<rparr>)) \<and>
   (pipeline_status s = Stalled \<or> pipeline_status s = Initializing \<longrightarrow>
      OnPipelineStatusChanged env Playing s =
        Inr (s\<lparr>events := events s @ [EvPlaying], pipeline_status := Playing\<rparr>))"
  by (auto simp add: OnPipelineStatusChanged_def ScheduleEvent_def and_then_simps DCHECK_simps)

theorem playing_transition_events_witness:
  "OnPipelineStatusChanged debug_env Playing (attached_element\<lparr>pipeline_status := Paused\<rparr>) =
     Inr (attached_element\<lparr>events := [EvPlay, EvPlaying], pipeline_status := Playing\<rparr>) \<and>
   OnPipelineStatusChanged debug_env Playing (attached_element\<lparr>pipeline_status := SeekingPlay\<rparr>) =
     Inr (attached_element\<lparr>events := [EvSeeked, EvPlaying], pipeline_status := Playing\<rparr>) \<and>
   OnPipelineStatusChanged debug_env Playing (attached_element\<lparr>pipeline_status := Stalled\<rparr>) =
     Inr (attached_element\<lparr>events := [EvPlaying], pipeline_status := Playing\<rparr>) \<and>
   OnPipelineStatusChanged debug_env Playing attached_element =
     Inr (attached_element\<lparr>events := [EvPlaying], pipeline_status := Playing\<rparr>)"
  using playing_transition_events [of "attached_element\<lparr>pipeline_status := Paused\<rparr>" debug_env]
        playing_transition_events [of "attached_element\<lparr>pipeline_status := SeekingPlay\<rparr>" debug_env]
        playing_transition_events [of "attached_element\<lparr>pipeline_status := Stalled\<rparr>" debug_env]
        playing_transition_events [of attached_element debug_env]
  by (simp add: attached_element_def HTMLVideoElement_new_def)

section \<open>Ready-state transitions\<close>

text \<open>
  C2. For a ready-state report \<open>new\<close> that differs from the current ready state and
  satisfies the attachment precondition (a source is attached exactly when \<open>new\<close> is
  not \<open>HAVE_NOTHING\<close>), the call succeeds, and the events it schedules are a list
  \<open>evs\<close> followed by ReadyStateChange, after which \<open>new\<close> is the ready state. In
  \<open>evs\<close>, LoadedMetaData occurs iff the value crosses upward past Metadata, LoadedData iff
  it crosses upward past CurrentData, CanPlay iff it crosses upward past EnoughData,
  Waiting iff it crosses downward past FutureData without reaching NoData; nothing else
  occurs, each event occurs at most once, and the events stand in the order of their
  thresholds Metadata, CurrentData, FutureData, EnoughData.
\<close>

theorem ready_state_transition:
  assumes "new \<noteq> ready_state s"
      and "(media_source s \<noteq> None) = (new \<noteq> HAVE_NOTHING)"
  shows "\<exists>evs.
      OnReadyStateChanged env new s =
        Inr (s\<lparr>events := events s @ evs @ [EvReadyStateChange], ready_state := new\<rparr>) \<and>
      (EvLoadedMetaData \<in> set evs \<longleftrightarrow>
         ready_state_value (ready_state s) < ready_state_value HAVE_METADATA \<and>
         ready_state_value HAVE_METADATA \<le> ready_state_value new) \<and>
      (EvLoadedData \<in> set evs \<longleftrightarrow>
         ready_state_value (ready_state s) < ready_state_value HAVE_CURRENT_DATA \<and>
         ready_state_value HAVE_CURRENT_DATA \<le> ready_state_value new) \<and>
      (EvCanPlay \<in> set evs \<longleftrightarrow>
         ready_state_value (ready_state s) < ready_state_value HAVE_ENOUGH_DATA \<and>
         ready_state_value HAVE_ENOUGH_DATA \<le> ready_state_value new) \<and>
      (EvWaiting \<in> set evs \<longleftrightarrow>
         ready_state_value HAVE_FUTURE_DATA \<le> ready_state_value (ready_state s) \<and>
         ready_state_value new < ready_state_value HAVE_FUTURE_DATA \<and> new \<noteq> HAVE_NOTHING) \<and>
      set evs \<subseteq> {EvLoadedMetaData, EvLoadedData, EvCanPlay, EvWaiting} \<and>
      distinct evs \<and>
      subseq evs [EvLoadedMetaData, EvLoadedData, EvWaiting, EvCanPlay]"
proof -
  define old where "old = ready_state s"
  define evs where "evs =
     (if ready_state_value old < 1 \<and> 1 \<le> ready_state_value new then [EvLoadedMetaData] else []) @
     (if ready_state_value old < 2 \<and> 2 \<le> ready_state_value new then [EvLoadedData] else []) @
     (if ready_state_value old < 4 \<and> 4 \<le> ready_state_value new then [EvCanPlay] else []) @
     (if 3 \<le> ready_state_value old \<and> ready_state_value new < 3 \<and> new \<noteq> HAVE_NOTHING
      then [EvWaiting] else [])"
  have check: "DCHECK env (if media_source s \<noteq> None then new \<noteq> HAVE_NOTHING
                           else new = HAVE_NOTHING) = Inr ()"
    using assms(2) by (simp add: DCHECK_def)
  have run: "OnReadyStateChanged env new s =
        Inr (s\<lparr>events := events s @ evs @ [EvReadyStateChange], ready_state := new\<rparr>)"
    using assms(1) unfolding OnReadyStateChanged_def check and_then_simps
    by (simp add: ScheduleEvent_def Let_def evs_def old_def)
  have shape:
     "(EvLoadedMetaData \<in> set evs \<longleftrightarrow>
         ready_state_value old < ready_state_value HAVE_METADATA \<and>
         ready_state_value HAVE_METADATA \<le> ready_state_value new) \<and>
      (EvLoadedData \<in> set evs \<longleftrightarrow>
         ready_state_value old < ready_state_value HAVE_CURRENT_DATA \<and>
         ready_state_value HAVE_CURRENT_DATA \<le> ready_state_value new) \<and>
      (EvCanPlay \<in> set evs \<longleftrightarrow>
         ready_state_value old < ready_state_value HAVE_ENOUGH_DATA \<and>
         ready_state_value HAVE_ENOUGH_DATA \<le> ready_state_value new) \<and>
      (EvWaiting \<in> set evs \<longleftrightarrow>
         ready_state_value HAVE_FUTURE_DATA \<le> ready_state_value old \<and>
         ready_state_value new < ready_state_value HAVE_FUTURE_DATA \<and> new \<noteq> HAVE_NOTHING) \<and>
      set evs \<subseteq> {EvLoadedMetaData, EvLoadedData, EvCanPlay, EvWaiting} \<and>
      distinct evs \<and>
      subseq evs [EvLoadedMetaData, EvLoadedData, EvWaiting, EvCanPlay]"
    by (cases old; cases new) (simp_all add: evs_def)
  from run shape show ?thesis unfolding old_def by blast
qed

theorem ready_state_transition_witness:
  "HAVE_ENOUGH_DATA \<noteq> ready_state attached_element \<and>
   (media_source attached_element \<noteq> None) = (HAVE_ENOUGH_DATA \<noteq> HAVE_NOTHING) \<and>
   OnReadyStateChanged debug_env HAVE_ENOUGH_DATA attached_element =
     Inr (attached_element
            \<lparr>events := [EvLoadedMetaData, EvLoadedData, EvCanPlay, EvReadyStateChange],
             ready_state := HAVE_ENOUGH_DATA\<rparr>) \<and>
   OnReadyStateChanged debug_env HAVE_CURRENT_DATA
       (attached_element\<lparr>ready_state := HAVE_ENOUGH_DATA\<rparr>) =
     Inr (attached_element
            \<lparr>events := [EvWaiting, EvReadyStateChange], ready_state := HAVE_CURRENT_DATA\<rparr>)"
  using ready_state_transition [of HAVE_ENOUGH_DATA attached_element debug_env]
        ready_state_transition [of HAVE_CURRENT_DATA
                                  "attached_element\<lparr>ready_state := HAVE_ENOUGH_DATA\<rparr>" debug_env]
  by (simp add: attached_element_def HTMLVideoElement_new_def debug_env_def
        OnReadyStateChanged_def DCHECK_def and_then_simps ScheduleEvent_def Let_def)

section \<open>Repeated status reports\<close>

text \<open>
  C3. A pipeline-status report equal to the current status schedules no event and
  changes nothing, unless the status is SeekingPlay or SeekingPause: then the call
  schedules Seeking once more and changes nothing else. The same holds for a report
  repeated right after any successful report of the same status. In particular two
  reports of SeekingPlay in a row schedule Seeking twice, from any state.
\<close>

theorem repeated_status_report:
  "(pipeline_status s \<noteq> SeekingPlay \<and> pipeline_status s \<noteq> SeekingPause \<longrightarrow>
      OnPipelineStatusChanged env (pipeline_status s) s = Inr s) \<and>
   (pipeline_status s = SeekingPlay \<or> pipeline_status s = SeekingPause \<longrightarrow>
      OnPipelineStatusChanged env (pipeline_status s) s =
        Inr (s\<lparr>events := events s @ [EvSeeking]\<rparr>)) \<and>
   (OnPipelineStatusChanged env p s = Inr s' \<longrightarrow>
      OnPipelineStatusChanged env p s' =
        Inr (if p = SeekingPlay \<or> p = SeekingPause
             then s'\<lparr>events := events s' @ [EvSeeking]\<rparr> else s')) \<and>
   and_then (OnPipelineStatusChanged env SeekingPlay s) (OnPipelineStatusChanged env SeekingPlay) =
     Inr (s\<lparr>events := events s @ [EvSeeking, EvSeeking], pipeline_status := SeekingPlay\<rparr>)"
proof (intro conjI impI)
  assume "OnPipelineStatusChanged env p s = Inr s'"
  then have "pipeline_status s' = p" by (rule status_after)
  then show "OnPipelineStatusChanged env p s' =
        Inr (if p = SeekingPlay \<or> p = SeekingPause
             then s'\<lparr>events := events s' @ [EvSeeking]\<rparr> else s')"
    by (simp add: OnPipelineStatusChanged_def ScheduleEvent_def)
next
  show "and_then (OnPipelineStatusChanged env SeekingPlay s) (OnPipelineStatusChanged env SeekingPlay) =
     Inr (s\<lparr>events := events s @ [EvSeeking, EvSeeking], pipeline_status := SeekingPlay\<rparr>)"
    by (cases "pipeline_status s = SeekingPlay")
       (simp_all add: OnPipelineStatusChanged_def ScheduleEvent_def and_then_simps)
qed (simp_all add: OnPipelineStatusChanged_def ScheduleEvent_def)

theorem repeated_status_report_witness:
  "OnPipelineStatusChanged debug_env Playing (attached_element\<lparr>pipeline_status := Playing\<rparr>) =
     Inr (attached_element\<lparr>pipeline_status := Playing\<rparr>) \<and>
   OnPipelineStatusChanged debug_env SeekingPause
       (attached_element\<lparr>pipeline_status := SeekingPause\<rparr>) =
     Inr (attached_element\<lparr>pipeline_status := SeekingPause, events := [EvSeeking]\<rparr>) \<and>
   OnPipelineStatusChanged debug_env Ended (attached_element\<lparr>pipeline_status := Playing\<rparr>) =
     Inr (attached_element\<lparr>pipeline_status := Ended, events := [EvPause, EvEnded]\<rparr>) \<and>
   OnPipelineStatusChanged debug_env Ended
       (attached_element\<lparr>pipeline_status := Ended, events := [EvPause, EvEnded]\<rparr>) =
     Inr (attached_element\<lparr>pipeline_status := Ended, events := [EvPause, EvEnded]\<rparr>) \<and>
   and_then (OnPipelineStatusChanged debug_env SeekingPlay attached_element)
       (OnPipelineStatusChanged debug_env SeekingPlay) =
     Inr (attached_element\<lparr>events := [EvSeeking, EvSeeking], pipeline_status := SeekingPlay\<rparr>)"
  using repeated_status_report
          [of "attached_element\<lparr>pipeline_status := Playing\<rparr>" debug_env Ended
              "attached_element\<lparr>pipeline_status := Ended, events := [EvPause, EvEnded]\<rparr>"]
        repeated_status_report
          [of "attached_element\<lparr>pipeline_status := SeekingPause\<rparr>" debug_env SeekingPlay
              "attached_element\<lparr>pipeline_status := SeekingPause\<rparr>"]
        repeated_status_report [of attached_element debug_env Playing attached_element]
  by (simp add: attached_element_def HTMLVideoElement_new_def
        OnPipelineStatusChanged_def and_then_simps ScheduleEvent_def)

section \<open>Transitions the status machine does not expect\<close>

text \<open>
  C10. A change of status to Playing is asserted to come from Paused, SeekingPlay, Stalled
  or Initializing, and a change to Paused from Playing, Stalled, SeekingPause or
  Initializing: with assertions compiled in, the call aborts exactly for the other
  previous statuses. With assertions compiled out, such an unexpected change to Paused
  schedules no event at all (no Pause, no Seeked), and an unexpected change to Playing
  schedules Playing alone (no Play, no Seeked); the new status is stored.
\<close>

theorem unexpected_previous_status:
  "(pipeline_status s \<noteq> Playing \<longrightarrow>
      (OnPipelineStatusChanged env Playing s = Inl CheckFailed \<longleftrightarrow>
         dcheck_is_on env \<and>
         pipeline_status s \<notin> {Paused, SeekingPlay, Stalled, Initializing})) \<and>
   (pipeline_status s \<noteq> Paused \<longrightarrow>
      (OnPipelineStatusChanged env Paused s = Inl CheckFailed \<longleftrightarrow>
         dcheck_is_on env \<and>
         pipeline_status s \<notin> {Playing, Stalled, SeekingPause, Initializing})) \<and>
   (\<not> dcheck_is_on env \<and> pipeline_status s \<in> {SeekingPlay, Ended, Errored} \<longrightarrow>
      OnPipelineStatusChanged env Paused s = Inr (s\<lparr>pipeline_status := Paused\<rparr>)) \<and>
   (\<not> dcheck_is_on env \<and> pipeline_status s \<in> {SeekingPause, Ended, Errored} \<longrightarrow>
      OnPipelineStatusChanged env Playing s =
        Inr (s\<lparr>events := events s @ [EvPlaying], pipeline_status := Playing\<rparr>))"
  by (cases "pipeline_status s")
     (simp_all add: OnPipelineStatusChanged_def ScheduleEvent_def and_then_simps DCHECK_def)

theorem unexpected_previous_status_witness:
  "OnPipelineStatusChanged debug_env Paused (attached_element\<lparr>pipeline_status := Ended\<rparr>) =
     Inl CheckFailed \<and>
   OnPipelineStatusChanged release_env Paused (attached_element\<lparr>pipeline_status := Ended\<rparr>) =
     Inr (attached_element\<lparr>pipeline_status := Paused\<rparr>) \<and>
   OnPipelineStatusChanged debug_env Playing (attached_element\<lparr>pipeline_status := Ended\<rparr>) =
     Inl CheckFailed \<and>
   OnPipelineStatusChanged release_env Playing (attached_element\<lparr>pipeline_status := Ended\<rparr>) =
     Inr (attached_element\<lparr>events := [EvPlaying], pipeline_status := Playing\<rparr>) \<and>
   OnPipelineStatusChanged debug_env Paused (attached_element\<lparr>pipeline_status := Stalled\<rparr>) =
     Inr (attached_element\<lparr>events := [EvPause], pipeline_status := Paused\<rparr>)"
  using unexpected_previous_status [of "attached_element\<lparr>pipeline_status := Ended\<rparr>" debug_env]
        unexpected_previous_status [of "attached_element\<lparr>pipeline_status := Ended\<rparr>" release_env]
        unexpected_previous_status [of "attached_element\<lparr>pipeline_status := Stalled\<rparr>" debug_env]
  by (simp add: attached_element_def HTMLVideoElement_new_def debug_env_def release_env_def
        OnPipelineStatusChanged_def DCHECK_def and_then_simps ScheduleEvent_def)

section \<open>Setting the source\<close>

text \<open>
  C5. \<^verbatim>\<open>SetSource\<close> first performs \<^verbatim>\<open>Load\<close>, which always succeeds; call its result
  \<open>s1\<close>. With an empty url the call returns normally with \<open>s1\<close>, which has no source.
  With a non-empty url the registry does not know, it returns the exception
  \<open>NotSupportedError\<close> with \<open>s1\<close>: no error record is set, no source is attached, and the
  ready state is \<open>HAVE_NOTHING\<close> (for an element that had a source this is Load's reset;
  for a sourceless element it is the element's invariant, which the statement takes as
  its premise). With a url the registry resolves to \<open>m\<close>, it returns normally, \<open>m\<close> is
  attached, and the requests sent to \<open>m\<close> are: open, set volume to \<open>0\<close> if muted and to
  the stored volume otherwise, and play iff autoplay is set or the will-play latch is
  set after Load (Load clears the latch when it detaches a source).
\<close>

theorem SetSource_outcomes:
  "\<exists>s1. Load env s = Inr s1 \<and>
     will_play s1 = (media_source s = None \<and> will_play s) \<and>
     SetSource env [] s = Inr (Returned (), s1) \<and> media_source s1 = None \<and>
     (u \<noteq> [] \<and> FindMediaSource env u = None \<longrightarrow>
        SetSource env u s =
          Inr (Exception (DOMException NotSupportedError ''Unknown MediaSource URL given.''), s1) \<and>
        error s1 = None \<and>
        ((media_source s = None \<longrightarrow> ready_state s = HAVE_NOTHING) \<longrightarrow>
           ready_state s1 = HAVE_NOTHING)) \<and>
     (u \<noteq> [] \<and> FindMediaSource env u = Some m \<longrightarrow>
        SetSource env u s =
          Inr (Returned (),
               s1\<lparr>media_source := Some m,
                  calls := calls s1 @
                    [(m, OpenMediaSource),
                     (m, Controller_SetVolume (if is_muted s then 0 else volume s))] @
                    (if autoplay s \<or> will_play s1 then [(m, PipelineManager_Play)] else [])\<rparr>))"
proof -
  from Load_total [of env s] obtain s1 where
    L: "Load env s = Inr s1" and
    f: "error s1 = None" "media_source s1 = None" "volume s1 = volume s"
       "is_muted s1 = is_muted s" "autoplay s1 = autoplay s"
       "will_play s1 = (media_source s = None \<and> will_play s)"
       "ready_state s1 = (if media_source s = None then ready_state s else HAVE_NOTHING)"
    by blast
  show ?thesis
    apply (rule exI [of _ s1])
    using f by (simp add: L SetSource_after_Load [OF L])
qed

theorem SetSource_outcomes_witness:
  "SetSource debug_env [] attached_element =
     Inr (Returned (),
          HTMLVideoElement_new
            \<lparr>calls := [(MediaSource ''blob:a'', OpenMediaSource),
                       (MediaSource ''blob:a'', Controller_SetVolume 1),
                       (MediaSource ''blob:a'', CloseMediaSource)]\<rparr>) \<and>
   SetSource debug_env ''blob:b''
       (attached_element\<lparr>ready_state := HAVE_METADATA, events := [EvLoadedMetaData, EvReadyStateChange]\<rparr>) =
     Inr (Exception (DOMException NotSupportedError ''Unknown MediaSource URL given.''),
          HTMLVideoElement_new
            \<lparr>calls := [(MediaSource ''blob:a'', OpenMediaSource),
                       (MediaSource ''blob:a'', Controller_SetVolume 1),
                       (MediaSource ''blob:a'', CloseMediaSource)],
             events := [EvLoadedMetaData, EvReadyStateChange, EvReadyStateChange]\<rparr>) \<and>
   SetSource debug_env ''blob:a'' (HTMLVideoElement_new\<lparr>is_muted := True, autoplay := True\<rparr>) =
     Inr (Returned (),
          HTMLVideoElement_new
            \<lparr>is_muted := True, autoplay := True, media_source := Some (MediaSource ''blob:a''),
             calls := [(MediaSource ''blob:a'', OpenMediaSource),
                       (MediaSource ''blob:a'', Controller_SetVolume 0),
                       (MediaSource ''blob:a'', PipelineManager_Play)]\<rparr>) \<and>
   SetSource debug_env ''blob:a'' HTMLVideoElement_new = Inr (Returned (), attached_element)"
  using SetSource_outcomes [of debug_env attached_element "''blob:b''" "MediaSource ''blob:a''"]
        SetSource_outcomes
          [of debug_env
              "attached_element\<lparr>ready_state := HAVE_METADATA,
                                events := [EvLoadedMetaData, EvReadyStateChange]\<rparr>"
              "''blob:b''" "MediaSource ''blob:a''"]
        SetSource_outcomes
          [of debug_env "HTMLVideoElement_new\<lparr>is_muted := True, autoplay := True\<rparr>"
              "''blob:a''" "MediaSource ''blob:a''"]
        SetSource_outcomes [of debug_env HTMLVideoElement_new "''blob:a''" "MediaSource ''blob:a''"]
  by (simp add: attached_element_def HTMLVideoElement_new_def debug_env_def
        Load_detached Load_attached)

section \<open>The will-play latch\<close>

text \<open>
  C8. On an element with no source, \<^verbatim>\<open>Play\<close> only sets the will-play latch and
  \<^verbatim>\<open>Pause\<close> only clears it: neither sends a request to the pipeline, and neither can
  fail. A following \<^verbatim>\<open>SetSource\<close> of a resolvable url sends exactly one play request
  after \<^verbatim>\<open>Play\<close>; after \<^verbatim>\<open>Pause\<close> it sends a play request only if autoplay is set.
\<close>

theorem will_play_latch:
  "media_source s = None \<longrightarrow>
     Play s = s\<lparr>will_play := True\<rparr> \<and> calls (Play s) = calls s \<and>
     Pause (Play s) = s\<lparr>will_play := False\<rparr> \<and> calls (Pause (Play s)) = calls s \<and>
     (u \<noteq> [] \<and> FindMediaSource env u = Some m \<longrightarrow>
        SetSource env u (Play s) =
          Inr (Returned (),
               s\<lparr>will_play := True, error := None, media_source := Some m,
                 calls := calls s @
                   [(m, OpenMediaSource),
                    (m, Controller_SetVolume (if is_muted s then 0 else volume s)),
                    (m, PipelineManager_Play)]\<rparr>) \<and>
        SetSource env u (Pause (Play s)) =
          Inr (Returned (),
               s\<lparr>will_play := False, error := None, media_source := Some m,
                 calls := calls s @
                   [(m, OpenMediaSource),
                    (m, Controller_SetVolume (if is_muted s then 0 else volume s))] @
                   (if autoplay s then [(m, PipelineManager_Play)] else [])\<rparr>))"
proof (intro impI)
  assume ms: "media_source s = None"
  have P: "Play s = s\<lparr>will_play := True\<rparr>" using ms by (simp add: Play_def)
  have Q: "Pause (Play s) = s\<lparr>will_play := False\<rparr>" using ms by (simp add: P Pause_def)
  have LP: "Load env (s\<lparr>will_play := True\<rparr>) = Inr (s\<lparr>will_play := True, error := None\<rparr>)"
    using ms by (simp add: Load_detached)
  have LQ: "Load env (s\<lparr>will_play := False\<rparr>) = Inr (s\<lparr>will_play := False, error := None\<rparr>)"
    using ms by (simp add: Load_detached)
  show "Play s = s\<lparr>will_play := True\<rparr> \<and> calls (Play s) = calls s \<and>
     Pause (Play s) = s\<lparr>will_play := False\<rparr> \<and> calls (Pause (Play s)) = calls s \<and>
     (u \<noteq> [] \<and> FindMediaSource env u = Some m \<longrightarrow>
        SetSource env u (Play s) =
          Inr (Returned (),
               s\<lparr>will_play := True, error := None, media_source := Some m,
                 calls := calls s @
                   [(m, OpenMediaSource),
                    (m, Controller_SetVolume (if is_muted s then 0 else volume s)),
                    (m, PipelineManager_Play)]\<rparr>) \<and>
        SetSource env u (Pause (Play s)) =
          Inr (Returned (),
               s\<lparr>will_play := False, error := None, media_source := Some m,
                 calls := calls s @
                   [(m, OpenMediaSource),
                    (m, Controller_SetVolume (if is_muted s then 0 else volume s))] @
                   (if autoplay s then [(m, PipelineManager_Play)] else [])\<rparr>))"
    unfolding Q unfolding P
    by (simp add: SetSource_after_Load [OF LP] SetSource_after_Load [OF LQ])
qed

theorem will_play_latch_witness:
  "media_source HTMLVideoElement_new = None \<and>
   Play HTMLVideoElement_new = HTMLVideoElement_new\<lparr>will_play := True\<rparr> \<and>
   Pause (Play HTMLVideoElement_new) = HTMLVideoElement_new \<and>
   SetSource debug_env ''blob:a'' (Play HTMLVideoElement_new) =
     Inr (Returned (),
          HTMLVideoElement_new
            \<lparr>will_play := True, media_source := Some (MediaSource ''blob:a''),
             calls := [(MediaSource ''blob:a'', OpenMediaSource),
                       (MediaSource ''blob:a'', Controller_SetVolume 1),
                       (MediaSource ''blob:a'', PipelineManager_Play)]\<rparr>) \<and>
   SetSource debug_env ''blob:a'' (Pause (Play HTMLVideoElement_new)) =
     Inr (Returned (), attached_element)"
  using will_play_latch [of HTMLVideoElement_new "''blob:a''" debug_env "MediaSource ''blob:a''"]
  by (simp add: attached_element_def HTMLVideoElement_new_def debug_env_def Play_def Pause_def)

section \<open>Ready state and source attachment\<close>




section \<open>Recording media errors\<close>




section \<open>Load\<close>




section \<open>Volume\<close>

text \<open>
  C9 (as amended). A freshly constructed element has volume \<open>1\<close> and is not muted.
  \<^verbatim>\<open>SetVolume\<close> stores its argument as it is, without clamping or range check. So after a
  sequence of public operations the stored volume lies between \<open>0\<close> and \<open>1\<close> provided
  every \<^verbatim>\<open>SetVolume\<close> in the sequence was given a value in that range.
\<close>

theorem volume_range:
  "Volume HTMLVideoElement_new = 1 \<and> Muted HTMLVideoElement_new = False \<and>
   Volume (SetVolume v s) = v \<and>
   (run_ops env xs HTMLVideoElement_new = Inr s' \<and>
    (\<forall>v. Op_SetVolume v \<in> set xs \<longrightarrow> 0 \<le> v \<and> v \<le> 1) \<longrightarrow>
      0 \<le> Volume s' \<and> Volume s' \<le> 1)"
proof (intro conjI impI)
  show "Volume (SetVolume v s) = v"
    by (simp add: Volume_def SetVolume_def send_def Let_def split: option.splits)
next
  assume a: "run_ops env xs HTMLVideoElement_new = Inr s' \<and>
    (\<forall>v. Op_SetVolume v \<in> set xs \<longrightarrow> 0 \<le> v \<and> v \<le> 1)"
  have "0 \<le> volume HTMLVideoElement_new \<and> volume HTMLVideoElement_new \<le> 1"
    by (simp add: HTMLVideoElement_new_def)
  with a run_ops_volume [of env xs HTMLVideoElement_new s']
  have "0 \<le> volume s' \<and> volume s' \<le> 1" by blast
  then show "0 \<le> Volume s'" and "Volume s' \<le> 1" by (simp_all add: Volume_def)
qed (simp_all add: Volume_def Muted_def HTMLVideoElement_new_def)

theorem volume_range_witness:
  "run_ops debug_env [Op_SetVolume (1/2), Op_SetSource ''blob:a'', Op_SetMuted True]
       HTMLVideoElement_new =
     Inr (HTMLVideoElement_new
            \<lparr>volume := 1/2, is_muted := True, media_source := Some (MediaSource ''blob:a''),
             calls := [(MediaSource ''blob:a'', OpenMediaSource),
                       (MediaSource ''blob:a'', Controller_SetVolume (1/2)),
                       (MediaSource ''blob:a'', Controller_SetVolume 0)]\<rparr>) \<and>
   Volume (HTMLVideoElement_new
            \<lparr>volume := 1/2, is_muted := True, media_source := Some (MediaSource ''blob:a''),
             calls := [(MediaSource ''blob:a'', OpenMediaSource),
                       (MediaSource ''blob:a'', Controller_SetVolume (1/2)),
                       (MediaSource ''blob:a'', Controller_SetVolume 0)]\<rparr>) = 1/2 \<and>
   Volume HTMLVideoElement_new = 1"
  using volume_range
          [of "1/2" HTMLVideoElement_new debug_env
              "[Op_SetVolume (1/2), Op_SetSource ''blob:a'', Op_SetMuted True]"
              "HTMLVideoElement_new
                 \<lparr>volume := 1/2, is_muted := True, media_source := Some (MediaSource ''blob:a''),
                  calls := [(MediaSource ''blob:a'', OpenMediaSource),
                            (MediaSource ''blob:a'', Controller_SetVolume (1/2)),
                            (MediaSource ''blob:a'', Controller_SetVolume 0)]\<rparr>"]
  by (simp add: HTMLVideoElement_new_def debug_env_def and_then_simps Volume_def
        SetVolume_def SetMuted_def SetSource_def Load_def DCHECK_def send_def Let_def)

text \<open>
  The claim as first stated bounds the volume after any \<^verbatim>\<open>SetVolume\<close> call. Setting the
  volume to \<open>2\<close> stores \<open>2\<close>.
\<close>

theorem volume_out_of_range_counterexample:
  "run_ops debug_env [Op_SetVolume 2] HTMLVideoElement_new =
     Inr (HTMLVideoElement_new\<lparr>volume := 2\<rparr>) \<and>
   Volume (HTMLVideoElement_new\<lparr>volume := 2\<rparr>) = 2 \<and>
   \<not> Volume (HTMLVideoElement_new\<lparr>volume := 2\<rparr>) \<le> 1"
  by (simp add: HTMLVideoElement_new_def and_then_simps Volume_def SetVolume_def Let_def)

end
